theory Spec2Isabelle
  imports Main
begin

section \<open>The consensus node of src/nodes/node.ts\<close>

text \<open>
  The function \<open>node(nodeId, N, F, initialValue, isFaulty, ...)\<close> builds an HTTP
  server whose five routes close over two mutable variables, \<open>state\<close> and
  \<open>consensusTimer\<close>. Each route handler runs to completion on the single
  JavaScript thread (none of them awaits), so a handler is modelled as a function
  from the two variables to a response and the two variables afterwards. The
  callbacks given to \<open>setTimeout\<close> and \<open>setInterval\<close> are modelled the same way,
  as one more step that the event loop may take.

  Console output, the port the server listens on and the readiness callback are
  not part of any statement below and are left out of the model.
\<close>

subsection \<open>Data\<close>

text \<open>
  Modelled from the spec: the declaration of \<open>Value\<close> (imported from
  \<open>../types\<close>) is not among the sources. The spec only says that it is the type of
  a node's proposal; the source stores the number literal \<open>1\<close> in a field of type
  \<open>Value | null\<close>, so a value is taken to be an integer-valued number.
\<close>

type_synonym Value = int

text \<open>
  \<open>NodeState\<close> (also imported from \<open>../types\<close>) has the four fields the source
  initialises at lines 21 to 26; \<open>null\<close> is \<open>None\<close>. The round counter only ever
  holds \<open>0\<close>, \<open>2\<close> or the result of an increment, hence a natural number.
\<close>

record NodeState =
  killed :: bool
  x :: "Value option"
  decided :: "bool option"
  k :: "nat option"

text \<open>The arguments of \<open>node(...)\<close> that the handlers read; they never change.\<close>

record params =
  nodeId :: nat
  N :: int
  F :: int
  initialValue :: Value
  isFaulty :: bool

text \<open>
  \<open>consensusTimer\<close> is \<open>null\<close> or the handle of the one timer the node has
  scheduled. The variable is assigned a handle only when it is \<open>null\<close> (line 55
  guards both \<open>setTimeout\<close> and \<open>setInterval\<close>), and it is reset to \<open>null\<close> exactly
  where that timer ends: in the one-shot callback (line 71) and next to
  \<open>clearTimeout\<close>/\<open>clearInterval\<close> (lines 88 to 90). So the timer pending in the
  event loop is always the one the variable holds, and the handle is modelled by
  the kind of timer it stands for.
\<close>

datatype timer = Timeout | Interval

record node_env =
  state :: NodeState
  consensusTimer :: "timer option"

record response =
  statusCode :: nat
  body :: string

subsection \<open>Construction\<close>

text \<open>Lines 21 to 29: the variables as \<open>node(...)\<close> leaves them.\<close>

definition node :: "params \<Rightarrow> node_env" where
  "node cfg =
     \<lparr>state = \<lparr>killed = False,
               x = (if isFaulty cfg then None else Some (initialValue cfg)),
               decided = None,
               k = None\<rparr>,
      consensusTimer = None\<rparr>"

subsection \<open>Route handlers\<close>

text \<open>\<open>GET /status\<close>, lines 32 to 38. The handler reads \<open>isFaulty\<close> only.\<close>

definition status :: "params \<Rightarrow> node_env \<Rightarrow> response \<times> node_env" where
  "status cfg s =
     (if isFaulty cfg then (\<lparr>statusCode = 500, body = ''faulty''\<rparr>, s)
      else (\<lparr>statusCode = 200, body = ''live''\<rparr>, s))"

text \<open>
  \<open>POST /message\<close>, lines 41 to 46. The body is logged and answered with
  \<open>sendStatus(200)\<close>, whose body is the status text.
\<close>

definition message :: "params \<Rightarrow> 'm \<Rightarrow> node_env \<Rightarrow> response \<times> node_env" where
  "message cfg msg s = (\<lparr>statusCode = 200, body = ''OK''\<rparr>, s)"

text \<open>\<open>GET /start\<close>, lines 54 to 83, branch by branch.\<close>

definition start :: "params \<Rightarrow> node_env \<Rightarrow> response \<times> node_env" where
  "start cfg s =
     (if consensusTimer s \<noteq> None then
        (\<lparr>statusCode = 400, body = ''Consensus algorithm already running.''\<rparr>, s)
      else if isFaulty cfg then
        (\<lparr>statusCode = 200, body = ''Faulty node: consensus not started.''\<rparr>, s)
      else if F cfg < 5 then
        (\<lparr>statusCode = 200, body = ''Consensus started''\<rparr>,
         s\<lparr>consensusTimer := Some Timeout\<rparr>)
      else
        (\<lparr>statusCode = 200, body = ''Consensus started''\<rparr>,
         s\<lparr>state := (state s)\<lparr>k := Some 0\<rparr>, consensusTimer := Some Interval\<rparr>))"

text \<open>\<open>GET /stop\<close>, lines 86 to 96.\<close>

definition stop :: "params \<Rightarrow> node_env \<Rightarrow> response \<times> node_env" where
  "stop cfg s =
     (if consensusTimer s \<noteq> None then
        (\<lparr>statusCode = 200, body = ''Consensus stopped''\<rparr>, s\<lparr>consensusTimer := None\<rparr>)
      else
        (\<lparr>statusCode = 200, body = ''Consensus algorithm not running.''\<rparr>, s))"

text \<open>\<open>GET /getState\<close>, lines 99 to 101: the state record as JSON.\<close>

definition getState :: "params \<Rightarrow> node_env \<Rightarrow> NodeState \<times> node_env" where
  "getState cfg s = (state s, s)"

subsection \<open>Timer callbacks\<close>

text \<open>
  \<open>state.k!++\<close> on a JavaScript number. Numbers are IEEE doubles: adding one is
  exact up to \<open>2^53\<close>, and \<open>2^53 + 1\<close> rounds back to \<open>2^53\<close>. The counter starts
  from \<open>0\<close>, so it never goes beyond that point, where it stays.
\<close>

definition js_incr :: "nat \<Rightarrow> nat" where
  "js_incr n = (if n < 2 ^ 53 then n + 1 else n)"

text \<open>
  One firing of the pending timer. With no timer pending nothing runs. The one-shot
  callback is lines 67 to 71, the interval callback line 78 (where \<open>null++\<close> would
  give \<open>1\<close>); an interval stays scheduled after it has fired.
\<close>

definition timerFires :: "params \<Rightarrow> node_env \<Rightarrow> node_env" where
  "timerFires cfg s =
     (case consensusTimer s of
        None \<Rightarrow> s
      | Some Timeout \<Rightarrow>
          s\<lparr>state := (state s)\<lparr>k := Some 2, decided := Some True, x := Some 1\<rparr>,
            consensusTimer := None\<rparr>
      | Some Interval \<Rightarrow>
          s\<lparr>state := (state s)\<lparr>k := Some (case k (state s) of None \<Rightarrow> 1
                                              | Some n \<Rightarrow> js_incr n)\<rparr>\<rparr>)"

subsection \<open>Runs\<close>

text \<open>
  What can happen to a node: a request on one of its routes, or its timer firing.
  A run is any finite sequence of these, so every timing of requests against the
  50 ms timers is covered.
\<close>

datatype 'm event = Status | Message 'm | Start | Stop | GetState | TimerFires

fun step :: "params \<Rightarrow> node_env \<Rightarrow> 'm event \<Rightarrow> node_env" where
  "step cfg s Status = snd (status cfg s)"
| "step cfg s (Message msg) = snd (message cfg msg s)"
| "step cfg s Start = snd (start cfg s)"
| "step cfg s Stop = snd (stop cfg s)"
| "step cfg s GetState = snd (getState cfg s)"
| "step cfg s TimerFires = timerFires cfg s"

definition run :: "params \<Rightarrow> 'm event list \<Rightarrow> node_env \<Rightarrow> node_env" where
  "run cfg evs s = foldl (step cfg) s evs"

subsection \<open>An invariant of runs\<close>

text \<open>
  What holds of the two variables after any run from construction: \<open>killed\<close> is
  still false; \<open>decided\<close> is \<open>null\<close>, or \<open>true\<close> together with \<open>x = 1\<close> and
  \<open>k = 2\<close>; the kind of the pending timer agrees with the branch of \<open>/start\<close>
  that scheduled it; and a node with \<open>F \<ge> 5\<close> has not decided.
\<close>

definition consistent :: "params \<Rightarrow> node_env \<Rightarrow> bool" where
  "consistent cfg s \<longleftrightarrow>
     \<not> killed (state s)
   \<and> (decided (state s) = None
      \<or> (decided (state s) = Some True \<and> x (state s) = Some 1 \<and> k (state s) = Some 2))
   \<and> (consensusTimer s = Some Timeout \<longrightarrow> F cfg < 5 \<and> \<not> isFaulty cfg)
   \<and> (consensusTimer s = Some Interval \<longrightarrow> 5 \<le> F cfg \<and> \<not> isFaulty cfg)
   \<and> (5 \<le> F cfg \<longrightarrow> decided (state s) = None)"

subsection \<open>Concrete nodes\<close>

text \<open>
  A healthy node of a network of \<open>n\<close> nodes, \<open>f\<close> of them faulty, with initial
  value \<open>v\<close>.
\<close>

definition healthy :: "int \<Rightarrow> int \<Rightarrow> Value \<Rightarrow> params" where
  "healthy n f v = \<lparr>nodeId = 0, N = n, F = f, initialValue = v, isFaulty = False\<rparr>"

section \<open>Properties\<close>

subsection \<open>Runs and their invariant\<close>

lemma run_Nil: "run cfg [] s = s"
  by (simp add: run_def)

lemma run_Cons: "run cfg (e # evs) s = run cfg evs (step cfg s e)"
  by (simp add: run_def)

lemma consistent_node: "consistent cfg (node cfg)"
  by (simp add: consistent_def node_def)

lemma consistent_step: "consistent cfg s \<Longrightarrow> consistent cfg (step cfg s e)"
  by (cases e)
     (auto simp: consistent_def status_def message_def start_def stop_def getState_def
        timerFires_def split: option.splits timer.splits)

lemma consistent_run: "consistent cfg s \<Longrightarrow> consistent cfg (run cfg evs s)"
  by (induction evs arbitrary: s) (simp_all add: run_Nil run_Cons consistent_step)

lemma decided_step:
  "decided (state s) = Some True \<Longrightarrow> decided (state (step cfg s e)) = Some True"
  by (cases e)
     (auto simp: status_def message_def start_def stop_def getState_def
        timerFires_def split: option.splits timer.splits)

lemma decided_run:
  "decided (state s) = Some True \<Longrightarrow> decided (state (run cfg evs s)) = Some True"
  by (induction evs arbitrary: s) (simp_all add: run_Nil run_Cons decided_step)

lemma killed_step: "killed (state (step cfg s e)) = killed (state s)"
  by (cases e)
     (auto simp: status_def message_def start_def stop_def getState_def
        timerFires_def split: option.splits timer.splits)


lemma js_incr_min: "m \<le> 2 ^ 53 \<Longrightarrow> js_incr m = min (m + 1) (2 ^ 53)"
  by (simp add: js_incr_def min_def)

text \<open>
  While an interval is pending, \<open>n\<close> firings add \<open>n\<close> to the counter (up to the
  point where increments stop being exact) and touch nothing else.
\<close>

lemma interval_ticks:
  "consensusTimer s = Some Interval \<Longrightarrow> k (state s) = Some m \<Longrightarrow> m \<le> 2 ^ 53 \<Longrightarrow>
   run cfg (replicate n (TimerFires :: 'm event)) s
     = s\<lparr>state := (state s)\<lparr>k := Some (min (m + n) (2 ^ 53))\<rparr>\<rparr>"
proof (induction n arbitrary: s m)
  case 0
  then show ?case by (simp add: run_Nil)
next
  case (Suc n)
  let ?t = "timerFires cfg s"
  have t: "?t = s\<lparr>state := (state s)\<lparr>k := Some (min (m + 1) (2 ^ 53))\<rparr>\<rparr>"
    using Suc.prems by (simp add: timerFires_def js_incr_min)
  have "run cfg (replicate (Suc n) (TimerFires :: 'm event)) s
      = run cfg (replicate n (TimerFires :: 'm event)) ?t"
    by (simp add: run_Cons)
  also have "\<dots> = ?t\<lparr>state := (state ?t)\<lparr>k := Some (min (min (m + 1) (2 ^ 53) + n) (2 ^ 53))\<rparr>\<rparr>"
    using Suc.prems by (intro Suc.IH) (simp_all add: t)
  also have "\<dots> = s\<lparr>state := (state s)\<lparr>k := Some (min (m + Suc n) (2 ^ 53))\<rparr>\<rparr>"
    by (simp add: t min_def)
  finally show ?case .
qed

subsection \<open>Starting\<close>

text \<open>
  C1 as stated fails on a fresh healthy node of a network with \<open>N = 4\<close>, \<open>F = 1\<close>:
  after \<open>/start\<close> the round counter is still \<open>null\<close>, not \<open>0\<close>, and \<open>decided\<close> is
  still \<open>null\<close>, not \<open>false\<close>.
\<close>

theorem start_fresh_counterexample:
  "k (state (snd (start (healthy 4 1 1) (node (healthy 4 1 1))))) \<noteq> Some 0
   \<and> decided (state (snd (start (healthy 4 1 1) (node (healthy 4 1 1))))) \<noteq> Some False"
  by (simp add: start_def node_def healthy_def)

text \<open>
  C1, amended. On a healthy node with no timer pending, \<open>/start\<close> answers
  200 "Consensus started" and its whole effect on the node is: for \<open>F < 5\<close>, to
  schedule the one-shot timer and leave the state record as it is; for \<open>F \<ge> 5\<close>,
  to set \<open>k\<close> to \<open>0\<close> and schedule the interval. In both cases \<open>decided\<close> and \<open>x\<close>
  keep their values; in particular \<open>decided\<close> is not set to \<open>false\<close>.
\<close>

theorem start_healthy_idle:
  assumes "\<not> isFaulty cfg" and "consensusTimer s = None"
  shows "fst (start cfg s) = \<lparr>statusCode = 200, body = ''Consensus started''\<rparr>
       \<and> snd (start cfg s) =
           (if F cfg < 5 then s\<lparr>consensusTimer := Some Timeout\<rparr>
            else s\<lparr>state := (state s)\<lparr>k := Some 0\<rparr>, consensusTimer := Some Interval\<rparr>)
       \<and> decided (state (snd (start cfg s))) = decided (state s)
       \<and> x (state (snd (start cfg s))) = x (state s)
       \<and> k (state (snd (start cfg s))) = (if F cfg < 5 then k (state s) else Some 0)"
  using assms by (simp add: start_def)

theorem start_healthy_idle_witness:
  "fst (start (healthy 10 6 1) (node (healthy 10 6 1)))
      = \<lparr>statusCode = 200, body = ''Consensus started''\<rparr>
   \<and> k (state (snd (start (healthy 10 6 1) (node (healthy 10 6 1))))) = Some 0
   \<and> decided (state (snd (start (healthy 10 6 1) (node (healthy 10 6 1))))) = None
   \<and> k (state (snd (start (healthy 4 1 1) (node (healthy 4 1 1))))) = None
   \<and> snd (start (healthy 4 1 1) (node (healthy 4 1 1)))
      = (node (healthy 4 1 1))\<lparr>consensusTimer := Some Timeout\<rparr>"
proof -
  have a: "\<not> isFaulty (healthy 10 6 1)" "consensusTimer (node (healthy 10 6 1)) = None"
    and b: "\<not> isFaulty (healthy 4 1 1)" "consensusTimer (node (healthy 4 1 1)) = None"
    by (simp_all add: healthy_def node_def)
  have c: "\<not> F (healthy 10 6 1) < 5" "F (healthy 4 1 1) < 5"
    "decided (state (node (healthy 10 6 1))) = None" "k (state (node (healthy 4 1 1))) = None"
    by (simp_all add: healthy_def node_def)
  show ?thesis
    using start_healthy_idle [OF a] start_healthy_idle [OF b] c by simp
qed




subsection \<open>Deciding\<close>

text \<open>
  C2 as stated fails for a healthy node started with \<open>0\<close>: once its timer has
  fired it has decided, and its value is \<open>1\<close>.
\<close>

theorem validity_counterexample:
  "decided (state (run (healthy 4 1 0) [Start, TimerFires :: string event] (node (healthy 4 1 0))))
      = Some True
   \<and> x (state (run (healthy 4 1 0) [Start, TimerFires :: string event] (node (healthy 4 1 0))))
      \<noteq> Some (initialValue (healthy 4 1 0))"
  by (simp add: run_def start_def timerFires_def node_def healthy_def)

text \<open>
  C2, amended. After any run from construction, a node whose \<open>decided\<close> is \<open>true\<close>
  holds the value \<open>1\<close>, whatever its initial value was; so the decided value is
  the initial one exactly when the node was started with \<open>1\<close>.
\<close>

theorem decided_value_is_one:
  assumes "decided (state (run cfg evs (node cfg))) = Some True"
  shows "x (state (run cfg evs (node cfg))) = Some 1
       \<and> (x (state (run cfg evs (node cfg))) = Some (initialValue cfg)
            \<longleftrightarrow> initialValue cfg = 1)"
proof -
  have "consistent cfg (run cfg evs (node cfg))"
    by (rule consistent_run [OF consistent_node])
  with assms have "x (state (run cfg evs (node cfg))) = Some 1"
    by (auto simp: consistent_def)
  then show ?thesis by auto
qed

theorem decided_value_is_one_witness:
  "x (state (run (healthy 4 1 0) [Start, TimerFires :: string event] (node (healthy 4 1 0))))
     = Some 1"
proof -
  have "decided (state (run (healthy 4 1 0) [Start, TimerFires :: string event]
           (node (healthy 4 1 0)))) = Some True"
    by (simp add: run_def start_def timerFires_def node_def healthy_def)
  from decided_value_is_one [OF this] show ?thesis by simp
qed

text \<open>
  C9. Decision is terminal. If a run from construction has reached
  \<open>decided = true\<close>, then after any further events \<open>decided\<close> is still \<open>true\<close>, the
  round counter is set, and \<open>x\<close> is what it was when the decision was reached.
\<close>

theorem decision_is_terminal:
  assumes "decided (state (run cfg evs (node cfg))) = Some True"
  shows "decided (state (run cfg evs' (run cfg evs (node cfg)))) = Some True
       \<and> k (state (run cfg evs' (run cfg evs (node cfg)))) \<noteq> None
       \<and> x (state (run cfg evs' (run cfg evs (node cfg)))) = x (state (run cfg evs (node cfg)))"
proof -
  let ?s = "run cfg evs (node cfg)" and ?t = "run cfg evs' (run cfg evs (node cfg))"
  have s: "consistent cfg ?s"
    by (rule consistent_run [OF consistent_node])
  then have t: "consistent cfg ?t"
    by (rule consistent_run)
  have d: "decided (state ?t) = Some True"
    using assms by (rule decided_run)
  from s assms have "x (state ?s) = Some 1"
    by (auto simp: consistent_def)
  moreover from t d have "x (state ?t) = Some 1 \<and> k (state ?t) = Some 2"
    by (auto simp: consistent_def)
  ultimately show ?thesis
    using d by simp
qed

theorem decision_is_terminal_witness:
  "decided (state (run (healthy 4 1 0) [Start, Stop, Message ''m'', Start, TimerFires, Stop]
      (run (healthy 4 1 0) [Start, TimerFires :: string event] (node (healthy 4 1 0))))) = Some True
   \<and> k (state (run (healthy 4 1 0) [Start, Stop, Message ''m'', Start, TimerFires, Stop]
      (run (healthy 4 1 0) [Start, TimerFires :: string event] (node (healthy 4 1 0))))) \<noteq> None
   \<and> x (state (run (healthy 4 1 0) [Start, Stop, Message ''m'', Start, TimerFires, Stop]
      (run (healthy 4 1 0) [Start, TimerFires :: string event] (node (healthy 4 1 0))))) = Some 1"
proof -
  have r: "run (healthy 4 1 0) [Start, TimerFires :: string event] (node (healthy 4 1 0))
      = \<lparr>state = \<lparr>killed = False, x = Some 1, decided = Some True, k = Some 2\<rparr>,
         consensusTimer = None\<rparr>"
    by (simp add: run_def start_def timerFires_def node_def healthy_def)
  then have "decided (state (run (healthy 4 1 0) [Start, TimerFires :: string event]
      (node (healthy 4 1 0)))) = Some True"
    by simp
  from decision_is_terminal [OF this, of "[Start, Stop, Message ''m'', Start, TimerFires, Stop]"]
  show ?thesis
    by (simp add: r)
qed

subsection \<open>Not deciding\<close>

text \<open>
  C3 as stated fails for \<open>N = 2\<close>, \<open>F = 1\<close>, where \<open>N \<le> 2F\<close>: the branch taken
  by \<open>/start\<close> depends on \<open>F < 5\<close> alone, and the node decides when its timer
  fires.
\<close>

theorem small_quorum_decides_counterexample:
  "N (healthy 2 1 1) \<le> 2 * F (healthy 2 1 1)
   \<and> decided (state (run (healthy 2 1 1) [Start, TimerFires :: string event]
         (node (healthy 2 1 1)))) = Some True"
  by (simp add: run_def start_def timerFires_def node_def healthy_def)

text \<open>
  C3, amended. For a healthy node with \<open>F \<ge> 5\<close>, whatever \<open>N\<close>: after any run
  from construction \<open>decided\<close> is still \<open>null\<close> (never \<open>true\<close>, and never \<open>false\<close>
  either); and when \<open>/start\<close> is called with no timer pending, then after \<open>n\<close>
  firings of the interval the round counter is \<open>n\<close> (for \<open>n\<close> up to \<open>2^53\<close>, where
  a JavaScript increment stops changing the number), the interval is still
  pending and \<open>decided\<close> is what it was before the call.
\<close>

theorem never_decides_when_F_ge_5:
  assumes "5 \<le> F cfg" and "\<not> isFaulty cfg"
  shows "decided (state (run cfg evs (node cfg))) = None
       \<and> (consensusTimer s = None \<longrightarrow>
            k (state (run cfg (replicate n (TimerFires :: 'm event)) (snd (start cfg s))))
              = Some (min n (2 ^ 53))
          \<and> decided (state (run cfg (replicate n (TimerFires :: 'm event)) (snd (start cfg s))))
              = decided (state s)
          \<and> consensusTimer (run cfg (replicate n (TimerFires :: 'm event)) (snd (start cfg s)))
              = Some Interval)"
proof -
  have "consistent cfg (run cfg evs (node cfg))"
    by (rule consistent_run [OF consistent_node])
  with assms have never: "decided (state (run cfg evs (node cfg))) = None"
    by (simp add: consistent_def)
  have ticks: "run cfg (replicate n (TimerFires :: 'm event)) (snd (start cfg s))
      = (snd (start cfg s))\<lparr>state := (state (snd (start cfg s)))\<lparr>k := Some (min (0 + n) (2 ^ 53))\<rparr>\<rparr>"
    if "consensusTimer s = None"
    using that assms by (intro interval_ticks) (simp_all add: start_def)
  have after: "k (state (run cfg (replicate n (TimerFires :: 'm event)) (snd (start cfg s))))
              = Some (min n (2 ^ 53))
          \<and> decided (state (run cfg (replicate n (TimerFires :: 'm event)) (snd (start cfg s))))
              = decided (state s)
          \<and> consensusTimer (run cfg (replicate n (TimerFires :: 'm event)) (snd (start cfg s)))
              = Some Interval"
    if idle: "consensusTimer s = None"
  proof -
    have st: "snd (start cfg s)
        = s\<lparr>state := (state s)\<lparr>k := Some 0\<rparr>, consensusTimer := Some Interval\<rparr>"
      using idle assms by (simp add: start_def)
    show ?thesis
      unfolding ticks [OF idle] by (simp add: st)
  qed
  show ?thesis
    using never after by blast
qed

theorem never_decides_when_F_ge_5_witness:
  "decided (state (run (healthy 10 6 1) [Start, TimerFires, TimerFires, Stop, Start :: string event]
       (node (healthy 10 6 1)))) = None
   \<and> k (state (run (healthy 10 6 1) (replicate 200 (TimerFires :: string event))
        (snd (start (healthy 10 6 1) (node (healthy 10 6 1)))))) = Some 200
   \<and> decided (state (run (healthy 10 6 1) (replicate 200 (TimerFires :: string event))
        (snd (start (healthy 10 6 1) (node (healthy 10 6 1)))))) = None"
proof -
  have a: "5 \<le> F (healthy 10 6 1)" "\<not> isFaulty (healthy 10 6 1)"
    by (simp_all add: healthy_def)
  have b: "consensusTimer (node (healthy 10 6 1)) = None"
    "decided (state (node (healthy 10 6 1))) = None"
    by (simp_all add: node_def)
  show ?thesis
    using never_decides_when_F_ge_5 [OF a, of "[Start, TimerFires, TimerFires, Stop, Start :: string event]"
        "node (healthy 10 6 1)" 200, where ?'m = string] b
    by simp
qed

subsection \<open>Stopping\<close>

text \<open>
  C5. \<open>/stop\<close> is idempotent: on any node, a second call in a row leaves the
  state record and the timer as the first call left them; the call always answers
  200 and never touches the state record; and with no timer pending it changes
  nothing at all.
\<close>

theorem stop_idempotent:
  "snd (stop cfg (snd (stop cfg s))) = snd (stop cfg s)
   \<and> state (snd (stop cfg s)) = state s
   \<and> statusCode (fst (stop cfg s)) = 200
   \<and> (consensusTimer s = None \<longrightarrow> snd (stop cfg s) = s)"
  by (simp add: stop_def)

theorem stop_idempotent_witness:
  "snd (stop (healthy 4 1 1) (node (healthy 4 1 1))) = node (healthy 4 1 1)
   \<and> statusCode (fst (stop (healthy 4 1 1) (node (healthy 4 1 1)))) = 200
   \<and> snd (stop (healthy 4 1 1)
        (snd (stop (healthy 4 1 1) (snd (start (healthy 4 1 1) (node (healthy 4 1 1)))))))
      = snd (stop (healthy 4 1 1) (snd (start (healthy 4 1 1) (node (healthy 4 1 1)))))"
proof -
  have "consensusTimer (node (healthy 4 1 1)) = None"
    by (simp add: node_def)
  with stop_idempotent [of "healthy 4 1 1" "node (healthy 4 1 1)"]
    stop_idempotent [of "healthy 4 1 1" "snd (start (healthy 4 1 1) (node (healthy 4 1 1)))"]
  show ?thesis by blast
qed

text \<open>
  C6 as stated fails when a node that has decided is started again: a timer is
  pending, \<open>/stop\<close> cancels it, and \<open>decided\<close> is still \<open>true\<close> afterwards.
\<close>

theorem stop_after_decision_counterexample:
  "consensusTimer (run (healthy 4 1 1) [Start, TimerFires, Start :: string event]
       (node (healthy 4 1 1))) = Some Timeout
   \<and> decided (state (snd (stop (healthy 4 1 1)
        (run (healthy 4 1 1) [Start, TimerFires, Start :: string event]
           (node (healthy 4 1 1)))))) = Some True"
  by (simp add: run_def start_def stop_def timerFires_def node_def healthy_def)

text \<open>
  C6, amended. With a timer pending, \<open>/stop\<close> answers 200 "Consensus stopped" and
  cancels the timer: none is pending after the call, so a later tick of the event
  loop changes nothing. The state record is left as it was (the round counter is
  not reset), so \<open>decided\<close> is \<open>true\<close> after the call exactly when it was before.
\<close>

theorem stop_halts_round:
  assumes "consensusTimer s \<noteq> None"
  shows "stop cfg s
           = (\<lparr>statusCode = 200, body = ''Consensus stopped''\<rparr>, s\<lparr>consensusTimer := None\<rparr>)
       \<and> consensusTimer (snd (stop cfg s)) = None
       \<and> state (snd (stop cfg s)) = state s
       \<and> timerFires cfg (snd (stop cfg s)) = snd (stop cfg s)
       \<and> (decided (state (snd (stop cfg s))) = Some True \<longleftrightarrow> decided (state s) = Some True)"
  using assms by (simp add: stop_def timerFires_def)

theorem stop_halts_round_witness:
  "consensusTimer (snd (stop (healthy 10 6 1)
      (run (healthy 10 6 1) [Start, TimerFires, TimerFires :: string event] (node (healthy 10 6 1)))))
     = None
   \<and> state (snd (stop (healthy 10 6 1)
      (run (healthy 10 6 1) [Start, TimerFires, TimerFires :: string event] (node (healthy 10 6 1)))))
     = \<lparr>killed = False, x = Some 1, decided = None, k = Some 2\<rparr>"
proof -
  have r: "run (healthy 10 6 1) [Start, TimerFires, TimerFires :: string event] (node (healthy 10 6 1))
      = \<lparr>state = \<lparr>killed = False, x = Some 1, decided = None, k = Some 2\<rparr>,
         consensusTimer = Some Interval\<rparr>"
    by (simp add: run_def start_def timerFires_def js_incr_def node_def healthy_def)
  then have "consensusTimer (run (healthy 10 6 1) [Start, TimerFires, TimerFires :: string event]
      (node (healthy 10 6 1))) \<noteq> None"
    by simp
  from stop_halts_round [OF this, of "healthy 10 6 1"] show ?thesis
    by (simp add: r)
qed

subsection \<open>Status and the killed flag\<close>




subsection \<open>Messages\<close>

text \<open>
  C10. Delivering a message never changes the node: whatever the message body and
  whatever the node's variables, the handler answers 200 and the state record
  \<open>{killed, x, decided, k}\<close> after the call is the one before it.
\<close>

theorem message_leaves_state:
  "state (snd (message cfg msg s)) = state s
   \<and> snd (message cfg msg s) = s
   \<and> statusCode (fst (message cfg msg s)) = 200"
  by (simp add: message_def)

end
